theory Spec2Isabelle
  imports Main "HOL-Library.Sublist"
begin

section \<open>The benchmark script \<^verbatim>\<open>supervised/benchmark.py\<close>\<close>

text \<open>
  The script is glue code: it resolves two names against two enumerations, selects one of
  six model constructors, wraps the model for the training framework and calls the
  framework's trainer. The modules \<^verbatim>\<open>dataset\<close> and \<^verbatim>\<open>supervised.algorithm\<close>, and the
  libraries \<^verbatim>\<open>torch\<close> and \<^verbatim>\<open>pytorch_lightning\<close>, are collaborators whose code is elsewhere:
  what they compute is a parameter of the model, what the script asks of them is recorded.
\<close>

subsection \<open>Exceptions\<close>

text \<open>
  The script raises \<^verbatim>\<open>KeyError\<close> and \<^verbatim>\<open>NotImplementedError\<close> itself; anything a collaborator
  raises propagates unchanged and is \<open>External\<close> here.
\<close>

datatype exn = KeyError string | NotImplementedError string | External string

subsection \<open>Enumerations and their lookup by name\<close>

text \<open>
  A Python \<^verbatim>\<open>Enum\<close> class is the list of its members in definition order, each with its
  name. \<^verbatim>\<open>[m.name for m in E]\<close> is \<open>names\<close>, and \<^verbatim>\<open>E[key]\<close> is \<open>getitem\<close>, which raises
  \<^verbatim>\<open>KeyError(key)\<close> for a key that names no member.
\<close>

type_synonym 'a enum = "(string \<times> 'a) list"

definition names :: "'a enum \<Rightarrow> string list" where
  "names E = map fst E"

definition getitem :: "'a enum \<Rightarrow> string \<Rightarrow> exn + 'a" where
  "getitem E key = (case map_of E key of None \<Rightarrow> Inl (KeyError key) | Some m \<Rightarrow> Inr m)"

text \<open>
  Modelled from the spec: the enumeration \<^verbatim>\<open>supervised.algorithm.Algorithm\<close> is declared in a
  module that is not among the sources. The script names six members of it and the spec
  calls them a fixed closed set of six; they are listed in the order the spec gives.
\<close>

datatype Algorithm = LINEAR | DNN | CNN | SLIM | HIGHWAY_NETWORK | RESNET

fun Algorithm_name :: "Algorithm \<Rightarrow> string" where
  "Algorithm_name LINEAR = ''LINEAR''"
| "Algorithm_name DNN = ''DNN''"
| "Algorithm_name CNN = ''CNN''"
| "Algorithm_name SLIM = ''SLIM''"
| "Algorithm_name HIGHWAY_NETWORK = ''HIGHWAY_NETWORK''"
| "Algorithm_name RESNET = ''RESNET''"

definition Algorithm_enum :: "Algorithm enum" where
  "Algorithm_enum =
     map (\<lambda>a. (Algorithm_name a, a)) [LINEAR, DNN, CNN, SLIM, HIGHWAY_NETWORK, RESNET]"

text \<open>
  The enumeration \<^verbatim>\<open>dataset.Dataset\<close> is not among the sources either, and nothing lists its
  members: it is a parameter \<open>Dataset :: 'dset enum\<close> of everything below.
\<close>

subsection \<open>Strings: \<^verbatim>\<open>str.upper\<close> and \<^verbatim>\<open>%s\<close> formatting\<close>

text \<open>
  Command-line arguments are modelled as ASCII strings, on which \<^verbatim>\<open>str.upper\<close> maps the
  letters a to z to A to Z and changes nothing else.
\<close>

definition upper_char :: "char \<Rightarrow> char" where
  "upper_char c =
     (if (97::nat) \<le> of_char c \<and> of_char c \<le> (122::nat)
      then char_of (of_char c - (32::nat)) else c)"

definition upper :: "string \<Rightarrow> string" where
  "upper s = map upper_char s"

text \<open>
  \<^verbatim>\<open>'%s' % xs\<close> for a list of strings is \<^verbatim>\<open>str(xs)\<close>: the \<^verbatim>\<open>repr\<close> of each element, separated
  by a comma and a space, in square brackets. The elements here are names of enumeration
  members, that is identifiers, and the \<^verbatim>\<open>repr\<close> of an identifier is the identifier between
  single quotes.
\<close>

definition repr_name :: "string \<Rightarrow> string" where
  "repr_name s = [CHR 0x27] @ s @ [CHR 0x27]"

fun join :: "string \<Rightarrow> string list \<Rightarrow> string" where
  "join sep [] = []"
| "join sep [x] = x"
| "join sep (x # y # ys) = x @ sep @ join sep (y # ys)"

definition str_names :: "string list \<Rightarrow> string" where
  "str_names xs = ''['' @ join '', '' (map repr_name xs) @ '']''"

subsection \<open>Resolution of the two positional arguments\<close>

text \<open>
  Lines 110 to 114 and 116 to 120: look the upper-cased argument up, and turn the
  enumeration's \<^verbatim>\<open>KeyError\<close> into one whose message quotes the argument as given and lists
  the member names.
\<close>

definition resolve_dataset :: "'dset enum \<Rightarrow> string \<Rightarrow> exn + 'dset" where
  "resolve_dataset Dataset arg =
     (case getitem Dataset (upper arg) of
        Inr dset \<Rightarrow> Inr dset
      | Inl (KeyError _) \<Rightarrow>
          Inl (KeyError (''Invalid dataset ('' @ arg @ ''), must be in '' @
                         str_names (names Dataset)))
      | Inl e \<Rightarrow> Inl e)"

definition resolve_algorithm :: "string \<Rightarrow> exn + Algorithm" where
  "resolve_algorithm arg =
     (case getitem Algorithm_enum (upper arg) of
        Inr algo \<Rightarrow> Inr algo
      | Inl (KeyError _) \<Rightarrow>
          Inl (KeyError (''Invalid algorithm ('' @ arg @ ''), must be in '' @
                         str_names (names Algorithm_enum)))
      | Inl e \<Rightarrow> Inl e)"

subsection \<open>The dispatch on the algorithm\<close>

text \<open>
  A call of one of the six constructors of \<^verbatim>\<open>supervised.algorithm\<close>, with the arguments the
  script passes: the dimensions and the label count of the dataset, and the keyword
  argument \<^verbatim>\<open>num_layers\<close> or \<^verbatim>\<open>n\<close> where the script gives one.
\<close>

datatype ('d, 'l) module =
    Linear 'd 'l
  | DNN_module 'd 'l nat
  | CNN_module 'd 'l
  | Slim 'd 'l
  | HighwayNetwork 'd 'l nat
  | ResidualNetwork 'd 'l nat

text \<open>
  Lines 60 to 75, branch for branch, the second \<^verbatim>\<open>SLIM\<close> test included.
\<close>

definition dispatch :: "Algorithm \<Rightarrow> 'd \<Rightarrow> 'l \<Rightarrow> exn + ('d, 'l) module" where
  "dispatch algo dimensions labels =
     (if algo = LINEAR then Inr (Linear dimensions labels)
      else if algo = DNN then Inr (DNN_module dimensions labels 10)
      else if algo = CNN then Inr (CNN_module dimensions labels)
      else if algo = SLIM then Inr (Slim dimensions labels)
      else if algo = SLIM then Inr (Slim dimensions labels)
      else if algo = HIGHWAY_NETWORK then Inr (HighwayNetwork dimensions labels 100)
      else if algo = RESNET then Inr (ResidualNetwork dimensions labels 3)
      else Inl (NotImplementedError (''Algorithm not implemented: '' @ Algorithm_name algo)))"

subsection \<open>Objects, the store and the calls made to collaborators\<close>

text \<open>
  \<^verbatim>\<open>train_and_evaluate\<close> builds two objects whose identity matters: the module the chosen
  constructor returns, which owns the learned parameters \<open>'p\<close>, and the \<^verbatim>\<open>Model\<close> wrapper
  whose field \<^verbatim>\<open>self.model\<close> refers to it. They live in a store, a list indexed by
  reference. The trainer and the two data loaders are configuration values.
\<close>

type_synonym ref = nat

datatype ('d, 'l, 'p) object =
    Module "('d, 'l) module" 'p
  | Model ref

datatype kwarg = Int_arg int | Bool_arg bool

type_synonym kwargs = "(string \<times> kwarg) list"

datatype 'data DataLoader = DataLoader 'data kwargs

datatype Trainer = Trainer (gpus: nat) (precision: nat)

text \<open>
  The two context managers of line 83: \<^verbatim>\<open>torch.autograd.detect_anomaly()\<close> switches the
  anomaly mode on and restores the previous mode on exit; \<^verbatim>\<open>contextlib.suppress()\<close> with no
  exception type does nothing on entry and lets every exception through on exit.
\<close>

datatype context_manager = detect_anomaly | suppress

datatype ('dset, 'data, 'd, 'l) event =
    Call_train_test 'dset bool
  | Call_constructor "('d, 'l) module"
  | Call_set_printoptions nat bool
  | Enter context_manager
  | Call_fit Trainer ref "'data DataLoader"
  | Exit context_manager
  | Call_test Trainer ref "'data DataLoader"

record ('dset, 'data, 'd, 'l, 'p) state =
  heap :: "('d, 'l, 'p) object list"
  trace :: "('dset, 'data, 'd, 'l) event list"
  anomaly_enabled :: bool

text \<open>
  What the collaborators compute. Each may fail with a message. \<open>fit\<close> is told whether the
  anomaly mode is on, and both \<open>fit\<close> and \<open>test\<close> return the parameters of the module as
  they leave them.
\<close>

record ('dset, 'data, 'd, 'l, 'p) env =
  train_test :: "'dset \<Rightarrow> bool \<Rightarrow> string + ('data \<times> 'data \<times> 'd \<times> 'l)"
  construct :: "('d, 'l) module \<Rightarrow> string + 'p"
  fit :: "bool \<Rightarrow> Trainer \<Rightarrow> ('d, 'l) module \<Rightarrow> 'p \<Rightarrow> 'data DataLoader \<Rightarrow> string + 'p"
  test :: "Trainer \<Rightarrow> ('d, 'l) module \<Rightarrow> 'p \<Rightarrow> 'data DataLoader \<Rightarrow> string + 'p"

definition record_call ::
  "('dset, 'data, 'd, 'l) event \<Rightarrow> ('dset, 'data, 'd, 'l, 'p) state
     \<Rightarrow> ('dset, 'data, 'd, 'l, 'p) state" where
  "record_call ev s = s\<lparr>trace := trace s @ [ev]\<rparr>"

definition new ::
  "('d, 'l, 'p) object \<Rightarrow> ('dset, 'data, 'd, 'l, 'p) state
     \<Rightarrow> ref \<times> ('dset, 'data, 'd, 'l, 'p) state" where
  "new ob s = (length (heap s), s\<lparr>heap := heap s @ [ob]\<rparr>)"

definition deref :: "('dset, 'data, 'd, 'l, 'p) state \<Rightarrow> ref \<Rightarrow> ('d, 'l, 'p) object option" where
  "deref s r = (if r < length (heap s) then Some (heap s ! r) else None)"

text \<open>
  The module behind a wrapper: its reference, its constructor call and its parameters.
  \<open>None\<close> when the reference is not a wrapper around a module.
\<close>

definition wrapped ::
  "('dset, 'data, 'd, 'l, 'p) state \<Rightarrow> ref \<Rightarrow> (ref \<times> ('d, 'l) module \<times> 'p) option" where
  "wrapped s lm =
     (case deref s lm of
        Some (Model m) \<Rightarrow>
          (case deref s m of
             Some (Module arch p) \<Rightarrow> Some (m, arch, p)
           | _ \<Rightarrow> None)
      | _ \<Rightarrow> None)"

text \<open>
  \<^verbatim>\<open>trainer.fit(lightning_model, loader)\<close> and \<^verbatim>\<open>trainer.test(lightning_model, loader)\<close>: the
  call is recorded, the framework works on the module behind the wrapper, and what it
  leaves is written back in place. A failure leaves the store as it was.
\<close>

definition Trainer_fit ::
  "('dset, 'data, 'd, 'l, 'p) env \<Rightarrow> Trainer \<Rightarrow> ref \<Rightarrow> 'data DataLoader
     \<Rightarrow> ('dset, 'data, 'd, 'l, 'p) state \<Rightarrow> (exn + unit) \<times> ('dset, 'data, 'd, 'l, 'p) state" where
  "Trainer_fit E trainer lm loader s =
     (let s1 = record_call (Call_fit trainer lm loader) s in
      case wrapped s1 lm of
        None \<Rightarrow> (Inl (External ''fit: not a LightningModule''), s1)
      | Some (m, arch, p) \<Rightarrow>
          (case fit E (anomaly_enabled s1) trainer arch p loader of
             Inl msg \<Rightarrow> (Inl (External msg), s1)
           | Inr p' \<Rightarrow> (Inr (), s1\<lparr>heap := (heap s1)[m := Module arch p']\<rparr>)))"

definition Trainer_test ::
  "('dset, 'data, 'd, 'l, 'p) env \<Rightarrow> Trainer \<Rightarrow> ref \<Rightarrow> 'data DataLoader
     \<Rightarrow> ('dset, 'data, 'd, 'l, 'p) state \<Rightarrow> (exn + unit) \<times> ('dset, 'data, 'd, 'l, 'p) state" where
  "Trainer_test E trainer lm loader s =
     (let s1 = record_call (Call_test trainer lm loader) s in
      case wrapped s1 lm of
        None \<Rightarrow> (Inl (External ''test: not a LightningModule''), s1)
      | Some (m, arch, p) \<Rightarrow>
          (case test E trainer arch p loader of
             Inl msg \<Rightarrow> (Inl (External msg), s1)
           | Inr p' \<Rightarrow> (Inr (), s1\<lparr>heap := (heap s1)[m := Module arch p']\<rparr>)))"

text \<open>
  \<^verbatim>\<open>with context: body\<close>. Both context managers run their exit whether the body returned
  or raised, and neither swallows the exception.
\<close>

definition with_context ::
  "context_manager \<Rightarrow> (('dset, 'data, 'd, 'l, 'p) state \<Rightarrow> (exn + 'a) \<times> ('dset, 'data, 'd, 'l, 'p) state)
     \<Rightarrow> ('dset, 'data, 'd, 'l, 'p) state \<Rightarrow> (exn + 'a) \<times> ('dset, 'data, 'd, 'l, 'p) state" where
  "with_context c body s =
     (case c of
        detect_anomaly \<Rightarrow>
          (let prev = anomaly_enabled s;
               (r, s') = body ((record_call (Enter c) s)\<lparr>anomaly_enabled := True\<rparr>)
           in (r, (record_call (Exit c) s')\<lparr>anomaly_enabled := prev\<rparr>))
      | suppress \<Rightarrow>
          (let (r, s') = body (record_call (Enter c) s)
           in (r, record_call (Exit c) s')))"

subsection \<open>\<^verbatim>\<open>train_and_evaluate\<close>\<close>

text \<open>
  Lines 58 to 87. The result is the reference the function returns, or the exception that
  ended it; the state holds the store and the calls made so far.
\<close>

definition train_and_evaluate ::
  "('dset, 'data, 'd, 'l, 'p) env \<Rightarrow> Algorithm \<Rightarrow> 'dset \<Rightarrow> bool \<Rightarrow> bool \<Rightarrow> kwargs
     \<Rightarrow> ('dset, 'data, 'd, 'l, 'p) state \<Rightarrow> (exn + ref) \<times> ('dset, 'data, 'd, 'l, 'p) state" where
  "train_and_evaluate E algo dset augment debug kwargs s0 =
     (let s1 = record_call (Call_train_test dset augment) s0 in
      case train_test E dset augment of
        Inl msg \<Rightarrow> (Inl (External msg), s1)
      | Inr (train, tst, dimensions, labels) \<Rightarrow>
          (case dispatch algo dimensions labels of
             Inl e \<Rightarrow> (Inl e, s1)
           | Inr call \<Rightarrow>
               (let s2 = record_call (Call_constructor call) s1 in
                case construct E call of
                  Inl msg \<Rightarrow> (Inl (External msg), s2)
                | Inr p \<Rightarrow>
                    (let (model, s3) = new (Module call p) s2;
                         (lightning_model, s4) = new (Model model) s3;
                         trainer = Trainer 1 16;
                         train_loader = DataLoader train kwargs;
                         test_loader = DataLoader tst [(''batch_size'', Int_arg 1024)];
                         s5 = record_call (Call_set_printoptions 4 False) s4;
                         context = (if debug then detect_anomaly else suppress);
                         (r, s6) = with_context context
                                     (Trainer_fit E trainer lightning_model train_loader) s5
                     in case r of
                          Inl e \<Rightarrow> (Inl e, s6)
                        | Inr _ \<Rightarrow>
                            (case Trainer_test E trainer lightning_model test_loader s6 of
                               (Inl e, s7) \<Rightarrow> (Inl e, s7)
                             | (Inr _, s7) \<Rightarrow> (Inr model, s7))))))"

subsection \<open>The entry point\<close>

text \<open>
  Lines 109 to 126, from the parsed arguments on (\<^verbatim>\<open>argparse\<close> has already accepted the
  command line). The script discards what \<^verbatim>\<open>train_and_evaluate\<close> returns.
\<close>

record args =
  args_dataset :: string
  args_algorithm :: string
  args_augment :: bool
  args_debug :: bool

definition main ::
  "('dset, 'data, 'd, 'l, 'p) env \<Rightarrow> 'dset enum \<Rightarrow> args
     \<Rightarrow> ('dset, 'data, 'd, 'l, 'p) state \<Rightarrow> (exn + unit) \<times> ('dset, 'data, 'd, 'l, 'p) state" where
  "main E Dataset a s =
     (case resolve_dataset Dataset (args_dataset a) of
        Inl e \<Rightarrow> (Inl e, s)
      | Inr dset \<Rightarrow>
          (case resolve_algorithm (args_algorithm a) of
             Inl e \<Rightarrow> (Inl e, s)
           | Inr algo \<Rightarrow>
               (case train_and_evaluate E algo dset (args_augment a) (args_debug a)
                       [(''batch_size'', Int_arg 128), (''num_workers'', Int_arg 4),
                        (''pin_memory'', Bool_arg True), (''shuffle'', Bool_arg True)] s of
                  (Inl e, s') \<Rightarrow> (Inl e, s')
                | (Inr _, s') \<Rightarrow> (Inr (), s'))))"

subsection \<open>The wrapper \<^verbatim>\<open>Model\<close> and its steps\<close>

text \<open>
  Every value the steps handle is a \<^verbatim>\<open>torch.Tensor\<close>, and every operation on tensors is the
  library's: \<^verbatim>\<open>F.log_softmax\<close>, \<^verbatim>\<open>F.nll_loss\<close>, \<^verbatim>\<open>torch.argmax\<close>, and the tensor methods
  \<^verbatim>\<open>==\<close>, \<^verbatim>\<open>float\<close> and \<^verbatim>\<open>mean\<close>. The steps are written over any such library.
\<close>

record 'T torch =
  log_softmax :: "'T \<Rightarrow> nat \<Rightarrow> 'T"
  nll_loss :: "'T \<Rightarrow> 'T \<Rightarrow> 'T"
  argmax :: "'T \<Rightarrow> nat \<Rightarrow> 'T"
  Tensor_eq :: "'T \<Rightarrow> 'T \<Rightarrow> 'T"
  Tensor_float :: "'T \<Rightarrow> 'T"
  Tensor_mean :: "'T \<Rightarrow> 'T"

text \<open>\<^verbatim>\<open>self.log(name, value)\<close> appends to what the module has logged.\<close>

type_synonym 'T logged = "(string \<times> 'T) list"

definition log :: "string \<Rightarrow> 'T \<Rightarrow> 'T logged \<Rightarrow> 'T logged" where
  "log name v lg = lg @ [(name, v)]"

text \<open>Line 21. \<open>model\<close> is \<^verbatim>\<open>self.model\<close>, called on a batch of inputs.\<close>

definition forward :: "'T torch \<Rightarrow> ('T \<Rightarrow> 'T) \<Rightarrow> 'T \<Rightarrow> 'T" where
  "forward F model x = log_softmax F (model x) 1"

text \<open>Lines 23 to 29. The second argument, the batch index, is not used.\<close>

definition training_step ::
  "'T torch \<Rightarrow> ('T \<Rightarrow> 'T) \<Rightarrow> 'T \<times> 'T \<Rightarrow> nat \<Rightarrow> 'T logged \<Rightarrow> 'T \<times> 'T logged" where
  "training_step F model batch _ lg =
     (let (x, y) = batch;
          y_hat = forward F model x;
          loss = nll_loss F y_hat y;
          lg1 = log ''train_loss'' loss lg
      in (loss, lg1))"

text \<open>Lines 31 to 39. The returned dictionary is the list of its items.\<close>

definition validation_step ::
  "'T torch \<Rightarrow> ('T \<Rightarrow> 'T) \<Rightarrow> 'T \<times> 'T \<Rightarrow> nat \<Rightarrow> 'T logged \<Rightarrow> (string \<times> 'T) list \<times> 'T logged" where
  "validation_step F model batch _ lg =
     (let (x, y) = batch;
          y_hat = forward F model x;
          loss = nll_loss F y_hat y;
          pred = argmax F y_hat 1;
          accuracy = Tensor_mean F (Tensor_float F (Tensor_eq F pred y));
          lg1 = log ''val_loss'' loss lg;
          lg2 = log ''val_acc'' accuracy lg1
      in ([(''val_loss'', loss), (''val_acc'', accuracy)], lg2))"

text \<open>Lines 41 to 49.\<close>

definition test_step ::
  "'T torch \<Rightarrow> ('T \<Rightarrow> 'T) \<Rightarrow> 'T \<times> 'T \<Rightarrow> nat \<Rightarrow> 'T logged \<Rightarrow> (string \<times> 'T) list \<times> 'T logged" where
  "test_step F model batch _ lg =
     (let (x, y) = batch;
          y_hat = forward F model x;
          loss = nll_loss F y_hat y;
          pred = argmax F y_hat 1;
          accuracy = Tensor_mean F (Tensor_float F (Tensor_eq F pred y));
          lg1 = log ''test_loss'' loss lg;
          lg2 = log ''test_acc'' accuracy lg1
      in ([(''test_loss'', loss), (''test_acc'', accuracy)], lg2))"

text \<open>
  Lines 51 to 55. The learning rate is the literal \<^verbatim>\<open>1e-3\<close>, kept as written: a decimal
  mantissa and a power of ten.
\<close>

datatype float_literal = Sci int int

datatype 'ps optimizer = Adagrad 'ps (lr: float_literal)

definition configure_optimizers :: "'ps \<Rightarrow> 'ps optimizer" where
  "configure_optimizers parameters = Adagrad parameters (Sci 1 (- 3))"

text \<open>
  The free tensor library: a tensor is the expression that computes it. Two tensors are
  equal only when the same operations were applied to the same inputs, so what holds of the
  steps over it does not depend on any numerical coincidence.
\<close>

datatype tensor =
    Input string
  | Net tensor
  | Log_softmax tensor nat
  | Nll_loss tensor tensor
  | Argmax tensor nat
  | Eq tensor tensor
  | Float tensor
  | Mean tensor

definition symbolic :: "tensor torch" where
  "symbolic = \<lparr>log_softmax = Log_softmax, nll_loss = Nll_loss, argmax = Argmax,
                Tensor_eq = Eq, Tensor_float = Float, Tensor_mean = Mean\<rparr>"

subsection \<open>The two metrics of a batch\<close>

text \<open>
  What the claims call the loss and the accuracy of a batch \<open>(x, y)\<close>: the negative
  log-likelihood of the labels under the log-probabilities of the wrapped model, and the
  mean of the indicator that the most probable class is the label. \<open>logged_values\<close> are
  the values a step added to the log.
\<close>

definition batch_loss :: "'T torch \<Rightarrow> ('T \<Rightarrow> 'T) \<Rightarrow> 'T \<times> 'T \<Rightarrow> 'T" where
  "batch_loss F model batch = nll_loss F (log_softmax F (model (fst batch)) 1) (snd batch)"

definition batch_accuracy :: "'T torch \<Rightarrow> ('T \<Rightarrow> 'T) \<Rightarrow> 'T \<times> 'T \<Rightarrow> 'T" where
  "batch_accuracy F model batch =
     Tensor_mean F (Tensor_float F
       (Tensor_eq F (argmax F (log_softmax F (model (fst batch)) 1) 1) (snd batch)))"

definition logged_values :: "'T logged \<Rightarrow> 'T logged \<Rightarrow> 'T list" where
  "logged_values lg lg' = map snd (drop (length lg) lg')"

definition reports_loss_and_accuracy ::
  "'T torch \<Rightarrow> ('T \<Rightarrow> 'T) \<Rightarrow> 'T \<times> 'T \<Rightarrow> 'T list \<Rightarrow> bool" where
  "reports_loss_and_accuracy F model batch vs =
     (batch_loss F model batch \<in> set vs \<and> batch_accuracy F model batch \<in> set vs)"

subsection \<open>Reading a run\<close>

text \<open>
  The calls a run made are those its final state holds beyond the ones of its initial
  state; \<open>constructor_calls\<close> keeps the constructor calls among them.
\<close>

definition calls_made ::
  "('dset, 'data, 'd, 'l, 'p) state \<Rightarrow> ('dset, 'data, 'd, 'l, 'p) state
     \<Rightarrow> ('dset, 'data, 'd, 'l) event list" where
  "calls_made s s' = drop (length (trace s)) (trace s')"

fun constructor_calls :: "('dset, 'data, 'd, 'l) event list \<Rightarrow> ('d, 'l) module list" where
  "constructor_calls [] = []"
| "constructor_calls (Call_constructor call # evs) = call # constructor_calls evs"
| "constructor_calls (_ # evs) = constructor_calls evs"

subsection \<open>A concrete run\<close>

text \<open>
  A small instance on which the statements below are evaluated: an enumeration of two
  datasets, collaborators that always return (training adds one to the parameters), the
  keyword arguments of line 125, and the state of a fresh process.
\<close>

definition example_Dataset :: "nat enum" where
  "example_Dataset = [(''MNIST'', 0), (''CIFAR10'', 1)]"

definition example_env :: "(nat, nat list, nat, nat, nat) env" where
  "example_env =
     \<lparr>train_test = (\<lambda>dset augment. Inr ([1, 2, 3], [4], 784, 10)),
      construct = (\<lambda>call. Inr 0),
      fit = (\<lambda>anomaly trainer call p loader. Inr (p + 1)),
      test = (\<lambda>trainer call p loader. Inr p)\<rparr>"

definition initial_state :: "(nat, nat list, nat, nat, nat) state" where
  "initial_state = \<lparr>heap = [], trace = [], anomaly_enabled = False\<rparr>"

definition script_kwargs :: kwargs where
  "script_kwargs = [(''batch_size'', Int_arg 128), (''num_workers'', Int_arg 4),
                    (''pin_memory'', Bool_arg True), (''shuffle'', Bool_arg True)]"


section \<open>Properties\<close>

subsection \<open>Lookup by name\<close>

lemma getitem_member:
  assumes "distinct (names E)" and "(n, m) \<in> set E"
  shows "getitem E n = Inr m"
proof -
  from assms have "map_of E n = Some m" by (simp add: names_def)
  then show ?thesis by (simp add: getitem_def)
qed

lemma getitem_missing:
  assumes "key \<notin> set (names E)"
  shows "getitem E key = Inl (KeyError key)"
proof -
  from assms have "map_of E key = None"
    by (simp add: names_def map_of_eq_None_iff)
  then show ?thesis by (simp add: getitem_def)
qed

lemma Algorithm_enum_distinct: "distinct (names Algorithm_enum)"
  by (simp add: Algorithm_enum_def names_def)

lemma Algorithm_enum_member: "(Algorithm_name algo, algo) \<in> set Algorithm_enum"
  by (cases algo) (simp_all add: Algorithm_enum_def)

lemma sublist_in_suffix:
  assumes "sublist x c"
  shows "sublist x (a @ c)"
proof -
  from assms obtain ps ss where "c = ps @ x @ ss"
    unfolding sublist_def by blast
  then have "a @ c = (a @ ps) @ x @ ss" by simp
  then show ?thesis unfolding sublist_def by blast
qed

lemma sublist_in_prefix:
  assumes "sublist x c"
  shows "sublist x (c @ b)"
proof -
  from assms obtain ps ss where "c = ps @ x @ ss"
    unfolding sublist_def by blast
  then have "c @ b = ps @ x @ (ss @ b)" by simp
  then show ?thesis unfolding sublist_def by blast
qed

lemma sublist_join:
  assumes "x \<in> set xs"
  shows "sublist x (join sep xs)"
  using assms
proof (induction sep xs rule: join.induct)
  case (1 sep)
  then show ?case by simp
next
  case (2 sep x')
  then show ?case by simp
next
  case (3 sep x' y ys)
  show ?case
  proof (cases "x = x'")
    case True
    then show ?thesis by simp
  next
    case False
    with 3 have "sublist x (join sep (y # ys))" by simp
    then have "sublist x (sep @ join sep (y # ys))"
      by (rule sublist_in_suffix)
    then have "sublist x (x' @ sep @ join sep (y # ys))"
      by (rule sublist_in_suffix)
    then show ?thesis by simp
  qed
qed

lemma sublist_str_names:
  assumes "n \<in> set xs"
  shows "sublist n (str_names xs)"
proof -
  from assms have "repr_name n \<in> set (map repr_name xs)" by simp
  then have "sublist (repr_name n) (join '', '' (map repr_name xs))"
    by (rule sublist_join)
  then obtain ps ss where "join '', '' (map repr_name xs) = ps @ repr_name n @ ss"
    unfolding sublist_def by blast
  then have "join '', '' (map repr_name xs) = (ps @ [CHR 0x27]) @ n @ ([CHR 0x27] @ ss)"
    by (simp add: repr_name_def)
  then have "sublist n (join '', '' (map repr_name xs))"
    unfolding sublist_def by blast
  then have "sublist n (''['' @ (join '', '' (map repr_name xs) @ '']''))"
    by (intro sublist_in_suffix sublist_in_prefix)
  then show ?thesis by (simp add: str_names_def)
qed

lemma resolve_dataset_member:
  assumes "distinct (names Dataset)" and "(upper arg, dset) \<in> set Dataset"
  shows "resolve_dataset Dataset arg = Inr dset"
  using getitem_member [OF assms] by (simp add: resolve_dataset_def)

lemma resolve_algorithm_member:
  assumes "upper arg = Algorithm_name algo"
  shows "resolve_algorithm arg = Inr algo"
  using getitem_member [OF Algorithm_enum_distinct Algorithm_enum_member, of algo] assms
  by (simp add: resolve_algorithm_def)

lemma resolve_dataset_missing:
  assumes "upper arg \<notin> set (names Dataset)"
  shows "resolve_dataset Dataset arg =
           Inl (KeyError (''Invalid dataset ('' @ arg @ ''), must be in '' @
                          str_names (names Dataset)))"
  using getitem_missing [OF assms] by (simp add: resolve_dataset_def)

lemma resolve_algorithm_missing:
  assumes "upper arg \<notin> set (names Algorithm_enum)"
  shows "resolve_algorithm arg =
           Inl (KeyError (''Invalid algorithm ('' @ arg @ ''), must be in '' @
                          str_names (names Algorithm_enum)))"
  using getitem_missing [OF assms] by (simp add: resolve_algorithm_def)

lemma message_quotes_argument: "sublist arg (pre @ arg @ mid @ lst)"
  unfolding sublist_def by blast

lemma message_lists_names:
  assumes "n \<in> set ns"
  shows "sublist n (pre @ arg @ mid @ str_names ns)"
proof -
  from assms have "sublist n (str_names ns)" by (rule sublist_str_names)
  then show ?thesis by (intro sublist_in_suffix)
qed


lemma upper_char_idem: "upper_char (upper_char c) = upper_char c"
proof (cases "(97::nat) \<le> of_char c \<and> of_char c \<le> (122::nat)")
  case True
  define n :: nat where "n = of_char c"
  from True have n: "97 \<le> n" "n \<le> 122" by (simp_all add: n_def)
  have "(of_char (char_of (n - 32)) :: nat) = (n - 32) mod 256"
    by (rule of_char_of)
  with n have "(of_char (char_of (n - 32)) :: nat) = n - 32" by simp
  with n have "\<not> ((97::nat) \<le> of_char (char_of (n - 32)))" by simp
  with True show ?thesis by (simp add: upper_char_def n_def)
next
  case False
  then have "upper_char c = c" unfolding upper_char_def by (rule if_not_P)
  then show ?thesis by simp
qed

lemma upper_idem: "upper (upper s) = upper s"
  by (simp add: upper_def upper_char_idem)

lemma main_invalid_algorithm:
  assumes "resolve_dataset Dataset (args_dataset a) = Inr dset"
    and "upper (args_algorithm a) \<notin> set (names Algorithm_enum)"
  shows "main E Dataset a s =
           (Inl (KeyError (''Invalid algorithm ('' @ args_algorithm a @ ''), must be in '' @
                           str_names (names Algorithm_enum))), s)"
  using assms(1) resolve_algorithm_missing [OF assms(2)] by (simp add: main_def)


text \<open>
  Claim C3. An argument whose upper-casing is the name of a member of the dataset
  enumeration resolves to that member, whatever the case of its letters (the argument and
  its upper-casing resolve alike), and likewise for the algorithm enumeration; the entry
  point then calls \<^verbatim>\<open>train_and_evaluate\<close> on the two
  members.
\<close>

theorem valid_names_resolve:
  assumes "distinct (names Dataset)"
    and "(upper (args_dataset a), dset) \<in> set Dataset"
    and "upper (args_algorithm a) = Algorithm_name algo"
  shows "resolve_dataset Dataset (args_dataset a) = Inr dset \<and>
         resolve_dataset Dataset (upper (args_dataset a)) = Inr dset \<and>
         resolve_algorithm (args_algorithm a) = Inr algo \<and>
         resolve_algorithm (upper (args_algorithm a)) = Inr algo \<and>
         main E Dataset a s =
           (case train_and_evaluate E algo dset (args_augment a) (args_debug a)
                   [(''batch_size'', Int_arg 128), (''num_workers'', Int_arg 4),
                    (''pin_memory'', Bool_arg True), (''shuffle'', Bool_arg True)] s of
              (Inl e, s') \<Rightarrow> (Inl e, s')
            | (Inr _, s') \<Rightarrow> (Inr (), s'))"
proof -
  have d: "resolve_dataset Dataset (args_dataset a) = Inr dset"
    using assms(1,2) by (rule resolve_dataset_member)
  have "(upper (upper (args_dataset a)), dset) \<in> set Dataset"
    by (simp only: upper_idem assms(2))
  with assms(1) have d': "resolve_dataset Dataset (upper (args_dataset a)) = Inr dset"
    by (rule resolve_dataset_member)
  have g: "resolve_algorithm (args_algorithm a) = Inr algo"
    using assms(3) by (rule resolve_algorithm_member)
  have "upper (upper (args_algorithm a)) = Algorithm_name algo"
    unfolding upper_idem by (rule assms(3))
  then have g': "resolve_algorithm (upper (args_algorithm a)) = Inr algo"
    by (rule resolve_algorithm_member)
  from d d' g g' show ?thesis by (simp add: main_def)
qed

lemma upper_examples:
  "upper ''cIfAr10'' = ''CIFAR10''" "upper ''ResNet'' = ''RESNET''"
  "upper ''NOTAREALSET'' = ''NOTAREALSET''" "upper ''resnet50'' = ''RESNET50''"
  "upper ''highway_network'' = ''HIGHWAY_NETWORK''" "upper ''mnist'' = ''MNIST''"
  by code_simp+

theorem valid_names_resolve_witness:
  "distinct (names example_Dataset) \<and>
   (upper ''cIfAr10'', 1) \<in> set example_Dataset \<and>
   upper ''ResNet'' = Algorithm_name RESNET \<and>
   resolve_dataset example_Dataset ''cIfAr10'' = Inr 1 \<and>
   resolve_algorithm ''ResNet'' = Inr RESNET"
proof -
  have h1: "distinct (names example_Dataset)"
    by (simp add: example_Dataset_def names_def)
  have h2: "(upper (args_dataset \<lparr>args_dataset = ''cIfAr10'', args_algorithm = ''ResNet'',
                 args_augment = False, args_debug = False\<rparr>), 1) \<in> set example_Dataset"
    by (simp add: example_Dataset_def upper_examples)
  have h3: "upper (args_algorithm \<lparr>args_dataset = ''cIfAr10'', args_algorithm = ''ResNet'',
                 args_augment = False, args_debug = False\<rparr>) = Algorithm_name RESNET"
    by (simp add: upper_examples)
  from valid_names_resolve [OF h1 h2 h3, of example_env initial_state] h1 h2 h3
  show ?thesis by simp
qed

text \<open>
  Claim C4. An argument whose upper-casing names no member of the dataset enumeration
  fails to resolve with a \<^verbatim>\<open>KeyError\<close> whose message contains the argument as given and
  every name of the enumeration; likewise for the algorithm enumeration, whose
  \<^verbatim>\<open>KeyError\<close> ends the entry point when the dataset argument resolved.
\<close>

theorem invalid_names_raise_KeyError:
  "(upper arg \<notin> set (names Dataset) \<longrightarrow>
      resolve_dataset Dataset arg =
        Inl (KeyError (''Invalid dataset ('' @ arg @ ''), must be in '' @
                       str_names (names Dataset))) \<and>
      sublist arg (''Invalid dataset ('' @ arg @ ''), must be in '' @
                   str_names (names Dataset)) \<and>
      (\<forall>n \<in> set (names Dataset).
         sublist n (''Invalid dataset ('' @ arg @ ''), must be in '' @
                    str_names (names Dataset)))) \<and>
   (upper arg \<notin> set (names Algorithm_enum) \<longrightarrow>
      resolve_algorithm arg =
        Inl (KeyError (''Invalid algorithm ('' @ arg @ ''), must be in '' @
                       str_names (names Algorithm_enum))) \<and>
      sublist arg (''Invalid algorithm ('' @ arg @ ''), must be in '' @
                   str_names (names Algorithm_enum)) \<and>
      (\<forall>n \<in> set (names Algorithm_enum).
         sublist n (''Invalid algorithm ('' @ arg @ ''), must be in '' @
                    str_names (names Algorithm_enum)))) \<and>
   (resolve_dataset Dataset (args_dataset a) = Inr dset \<and>
    upper (args_algorithm a) \<notin> set (names Algorithm_enum) \<longrightarrow>
      main E Dataset a s =
        (Inl (KeyError (''Invalid algorithm ('' @ args_algorithm a @ ''), must be in '' @
                        str_names (names Algorithm_enum))), s))"
  by (intro conjI impI ballI resolve_dataset_missing resolve_algorithm_missing
        message_quotes_argument message_lists_names main_invalid_algorithm)
     blast+

theorem invalid_names_raise_KeyError_witness:
  "upper ''resnet50'' \<notin> set (names example_Dataset) \<and>
   upper ''resnet50'' \<notin> set (names Algorithm_enum) \<and>
   resolve_dataset example_Dataset ''mnist'' = Inr 0 \<and>
   resolve_dataset example_Dataset ''resnet50'' =
     Inl (KeyError (''Invalid dataset (resnet50), must be in '' @ str_names [''MNIST'', ''CIFAR10''])) \<and>
   resolve_algorithm ''resnet50'' =
     Inl (KeyError (''Invalid algorithm (resnet50), must be in '' @
            str_names [''LINEAR'', ''DNN'', ''CNN'', ''SLIM'', ''HIGHWAY_NETWORK'', ''RESNET''])) \<and>
   main example_env example_Dataset
     \<lparr>args_dataset = ''mnist'', args_algorithm = ''resnet50'',
      args_augment = False, args_debug = False\<rparr> initial_state =
     (Inl (KeyError (''Invalid algorithm (resnet50), must be in '' @
            str_names [''LINEAR'', ''DNN'', ''CNN'', ''SLIM'', ''HIGHWAY_NETWORK'', ''RESNET''])),
      initial_state)"
proof -
  have h1: "upper ''resnet50'' \<notin> set (names example_Dataset)"
    by (simp add: upper_examples example_Dataset_def names_def)
  have h2: "upper ''resnet50'' \<notin> set (names Algorithm_enum)"
    by (simp add: upper_examples Algorithm_enum_def names_def)
  have h3: "resolve_dataset example_Dataset ''mnist'' = Inr 0"
    by (simp add: resolve_dataset_def getitem_def upper_examples example_Dataset_def)
  have n1: "names example_Dataset = [''MNIST'', ''CIFAR10'']"
    by (simp add: example_Dataset_def names_def)
  have n2: "names Algorithm_enum =
              [''LINEAR'', ''DNN'', ''CNN'', ''SLIM'', ''HIGHWAY_NETWORK'', ''RESNET'']"
    by (simp add: Algorithm_enum_def names_def)
  from invalid_names_raise_KeyError [where arg = "''resnet50''" and Dataset = example_Dataset
      and a = "\<lparr>args_dataset = ''mnist'', args_algorithm = ''resnet50'',
                  args_augment = False, args_debug = False\<rparr>"
      and dset = 0 and E = example_env and s = initial_state] h1 h2 h3
  show ?thesis by (simp add: n1 n2)
qed

text \<open>
  Claim C5. With a dataset argument that names no member, the entry point ends with the
  \<^verbatim>\<open>KeyError\<close> and leaves the state as it found it: no data was loaded, no constructor was
  called, nothing was allocated, whatever the algorithm argument is.
\<close>

theorem invalid_dataset_fails_first:
  assumes "upper (args_dataset a) \<notin> set (names Dataset)"
  shows "main E Dataset a s =
           (Inl (KeyError (''Invalid dataset ('' @ args_dataset a @ ''), must be in '' @
                           str_names (names Dataset))), s)"
  using resolve_dataset_missing [OF assms] by (simp add: main_def)

theorem invalid_dataset_fails_first_witness:
  "upper ''NOTAREALSET'' \<notin> set (names example_Dataset) \<and>
   main example_env example_Dataset
     \<lparr>args_dataset = ''NOTAREALSET'', args_algorithm = ''resnet'',
      args_augment = False, args_debug = False\<rparr> initial_state =
     (Inl (KeyError (''Invalid dataset (NOTAREALSET), must be in '' @
                     str_names [''MNIST'', ''CIFAR10''])), initial_state) \<and>
   trace initial_state = [] \<and> heap initial_state = []"
proof -
  have h: "upper (args_dataset \<lparr>args_dataset = ''NOTAREALSET'', args_algorithm = ''resnet'',
             args_augment = False, args_debug = False\<rparr>) \<notin> set (names example_Dataset)"
    by (simp add: upper_examples example_Dataset_def names_def)
  have n1: "names example_Dataset = [''MNIST'', ''CIFAR10'']"
    by (simp add: example_Dataset_def names_def)
  from invalid_dataset_fails_first [OF h, of example_env initial_state] h
  show ?thesis by (simp add: n1 initial_state_def)
qed


subsection \<open>The outcomes of \<^verbatim>\<open>train_and_evaluate\<close>\<close>

lemma dispatch_returns: "\<exists>call. dispatch algo d l = Inr call"
  by (cases algo) (simp_all add: dispatch_def)

lemmas run_defs = train_and_evaluate_def record_call_def new_def with_context_def
  Trainer_fit_def Trainer_test_def wrapped_def deref_def nth_append Let_def

lemma load_fails:
  assumes "train_test E dset augment = Inl msg"
  shows "train_and_evaluate E algo dset augment debug kwargs s =
           (Inl (External msg), s\<lparr>trace := trace s @ [Call_train_test dset augment]\<rparr>)"
  using assms by (simp add: run_defs)

lemma construct_fails:
  assumes "train_test E dset augment = Inr (train, tst, d, l)"
    and "dispatch algo d l = Inr call"
    and "construct E call = Inl msg"
  shows "train_and_evaluate E algo dset augment debug kwargs s =
           (Inl (External msg),
            s\<lparr>trace := trace s @ [Call_train_test dset augment, Call_constructor call]\<rparr>)"
  using assms by (simp add: run_defs)

lemma fit_fails:
  assumes "train_test E dset augment = Inr (train, tst, d, l)"
    and "dispatch algo d l = Inr call"
    and "construct E call = Inr p"
    and "fit E (debug \<or> anomaly_enabled s) (Trainer 1 16) call p (DataLoader train kwargs) = Inl msg"
  shows "train_and_evaluate E algo dset augment debug kwargs s =
     (Inl (External msg),
      s\<lparr>heap := heap s @ [Module call p, Model (length (heap s))],
        trace := trace s @
          [Call_train_test dset augment, Call_constructor call, Call_set_printoptions 4 False,
           Enter (if debug then detect_anomaly else suppress),
           Call_fit (Trainer 1 16) (Suc (length (heap s))) (DataLoader train kwargs),
           Exit (if debug then detect_anomaly else suppress)]\<rparr>)"
  using assms by (cases debug) (simp_all add: run_defs)

lemma test_fails:
  assumes "train_test E dset augment = Inr (train, tst, d, l)"
    and "dispatch algo d l = Inr call"
    and "construct E call = Inr p"
    and "fit E (debug \<or> anomaly_enabled s) (Trainer 1 16) call p (DataLoader train kwargs) = Inr p1"
    and "test E (Trainer 1 16) call p1 (DataLoader tst [(''batch_size'', Int_arg 1024)]) = Inl msg"
  shows "train_and_evaluate E algo dset augment debug kwargs s =
     (Inl (External msg),
      s\<lparr>heap := heap s @ [Module call p1, Model (length (heap s))],
        trace := trace s @
          [Call_train_test dset augment, Call_constructor call, Call_set_printoptions 4 False,
           Enter (if debug then detect_anomaly else suppress),
           Call_fit (Trainer 1 16) (Suc (length (heap s))) (DataLoader train kwargs),
           Exit (if debug then detect_anomaly else suppress),
           Call_test (Trainer 1 16) (Suc (length (heap s)))
             (DataLoader tst [(''batch_size'', Int_arg 1024)])]\<rparr>)"
  using assms by (cases debug) (simp_all add: run_defs)

lemma all_return:
  assumes "train_test E dset augment = Inr (train, tst, d, l)"
    and "dispatch algo d l = Inr call"
    and "construct E call = Inr p"
    and "fit E (debug \<or> anomaly_enabled s) (Trainer 1 16) call p (DataLoader train kwargs) = Inr p1"
    and "test E (Trainer 1 16) call p1 (DataLoader tst [(''batch_size'', Int_arg 1024)]) = Inr p2"
  shows "train_and_evaluate E algo dset augment debug kwargs s =
     (Inr (length (heap s)),
      s\<lparr>heap := heap s @ [Module call p2, Model (length (heap s))],
        trace := trace s @
          [Call_train_test dset augment, Call_constructor call, Call_set_printoptions 4 False,
           Enter (if debug then detect_anomaly else suppress),
           Call_fit (Trainer 1 16) (Suc (length (heap s))) (DataLoader train kwargs),
           Exit (if debug then detect_anomaly else suppress),
           Call_test (Trainer 1 16) (Suc (length (heap s)))
             (DataLoader tst [(''batch_size'', Int_arg 1024)])]\<rparr>)"
  using assms by (cases debug) (simp_all add: run_defs)

text \<open>A run that returns went through all five collaborator calls.\<close>

lemma returned_run:
  assumes "train_and_evaluate E algo dset augment debug kwargs s = (Inr m, s')"
  obtains train tst d l call p p1 p2 where
    "train_test E dset augment = Inr (train, tst, d, l)"
    "dispatch algo d l = Inr call"
    "construct E call = Inr p"
    "fit E (debug \<or> anomaly_enabled s) (Trainer 1 16) call p (DataLoader train kwargs) = Inr p1"
    "test E (Trainer 1 16) call p1 (DataLoader tst [(''batch_size'', Int_arg 1024)]) = Inr p2"
proof (cases "train_test E dset augment")
  case (Inl msg)
  from load_fails [OF this] assms show ?thesis by simp
next
  case (Inr loaded)
  obtain train tst d l where loaded: "loaded = (train, tst, d, l)"
    by (cases loaded) auto
  with Inr have a: "train_test E dset augment = Inr (train, tst, d, l)" by simp
  obtain call where b: "dispatch algo d l = Inr call"
    using dispatch_returns [of algo d l] by blast
  show ?thesis
  proof (cases "construct E call")
    case (Inl msg)
    from construct_fails [OF a b this] assms show ?thesis by simp
  next
    case c: (Inr p)
    show ?thesis
    proof (cases "fit E (debug \<or> anomaly_enabled s) (Trainer 1 16) call p (DataLoader train kwargs)")
      case (Inl msg)
      from fit_fails [OF a b c this] assms show ?thesis by simp
    next
      case f: (Inr p1)
      show ?thesis
      proof (cases "test E (Trainer 1 16) call p1 (DataLoader tst [(''batch_size'', Int_arg 1024)])")
        case (Inl msg)
        from test_fails [OF a b c f this] assms show ?thesis by simp
      next
        case (Inr p2)
        from a b c f this show ?thesis by (rule that)
      qed
    qed
  qed
qed


lemma run_cases [case_names no_data no_module no_fit no_test returned]:
  obtains
    msg where "train_test E dset augment = Inl msg"
  | train tst d l call msg where
      "train_test E dset augment = Inr (train, tst, d, l)"
      "dispatch algo d l = Inr call"
      "construct E call = Inl msg"
  | train tst d l call p msg where
      "train_test E dset augment = Inr (train, tst, d, l)"
      "dispatch algo d l = Inr call"
      "construct E call = Inr p"
      "fit E (debug \<or> anomaly_enabled s) (Trainer 1 16) call p (DataLoader train kwargs) = Inl msg"
  | train tst d l call p p1 msg where
      "train_test E dset augment = Inr (train, tst, d, l)"
      "dispatch algo d l = Inr call"
      "construct E call = Inr p"
      "fit E (debug \<or> anomaly_enabled s) (Trainer 1 16) call p (DataLoader train kwargs) = Inr p1"
      "test E (Trainer 1 16) call p1 (DataLoader tst [(''batch_size'', Int_arg 1024)]) = Inl msg"
  | train tst d l call p p1 p2 where
      "train_test E dset augment = Inr (train, tst, d, l)"
      "dispatch algo d l = Inr call"
      "construct E call = Inr p"
      "fit E (debug \<or> anomaly_enabled s) (Trainer 1 16) call p (DataLoader train kwargs) = Inr p1"
      "test E (Trainer 1 16) call p1 (DataLoader tst [(''batch_size'', Int_arg 1024)]) = Inr p2"
proof (cases "train_test E dset augment")
  case (Inl msg)
  then show ?thesis by (rule that(1))
next
  case (Inr loaded)
  obtain train tst d l where loaded: "loaded = (train, tst, d, l)"
    by (cases loaded) auto
  with Inr have a: "train_test E dset augment = Inr (train, tst, d, l)" by simp
  obtain call where b: "dispatch algo d l = Inr call"
    using dispatch_returns [of algo d l] by blast
  show ?thesis
  proof (cases "construct E call")
    case (Inl msg)
    from a b this show ?thesis by (rule that(2))
  next
    case c: (Inr p)
    show ?thesis
    proof (cases "fit E (debug \<or> anomaly_enabled s) (Trainer 1 16) call p (DataLoader train kwargs)")
      case (Inl msg)
      from a b c this show ?thesis by (rule that(3))
    next
      case f: (Inr p1)
      show ?thesis
      proof (cases "test E (Trainer 1 16) call p1 (DataLoader tst [(''batch_size'', Int_arg 1024)])")
        case (Inl msg)
        from a b c f this show ?thesis by (rule that(4))
      next
        case (Inr p2)
        from a b c f this show ?thesis by (rule that(5))
      qed
    qed
  qed
qed

lemma constructor_calls_append:
  "constructor_calls (xs @ ys) = constructor_calls xs @ constructor_calls ys"
  by (induction xs rule: constructor_calls.induct) simp_all

lemma dispatch_table:
  "dispatch algo d l =
     Inr (case algo of
            LINEAR \<Rightarrow> Linear d l
          | DNN \<Rightarrow> DNN_module d l 10
          | CNN \<Rightarrow> CNN_module d l
          | SLIM \<Rightarrow> Slim d l
          | HIGHWAY_NETWORK \<Rightarrow> HighwayNetwork d l 100
          | RESNET \<Rightarrow> ResidualNetwork d l 3)"
  by (cases algo) (simp_all add: dispatch_def)

subsection \<open>The dispatch\<close>

text \<open>
  Claim C1. Each of the six algorithm identifiers selects its own architecture with the fixed
  hyperparameters of the script: ten layers for the deep network, a hundred for the highway
  network, \<open>n = 3\<close> for the residual network. \<^verbatim>\<open>SLIM\<close> selects \<^verbatim>\<open>Slim(dimensions, labels)\<close>, the
  second test of \<^verbatim>\<open>SLIM\<close> changing nothing, and no identifier reaches the final \<^verbatim>\<open>else\<close>.
  In a run of \<^verbatim>\<open>train_and_evaluate\<close> that architecture is the one constructor call made, on the
  dimensions and labels the dataset loader returned; when the loader fails no constructor
  is called.
\<close>

theorem dispatch_fixed_hyperparameters:
  "dispatch algo d l =
     Inr (case algo of
            LINEAR \<Rightarrow> Linear d l
          | DNN \<Rightarrow> DNN_module d l 10
          | CNN \<Rightarrow> CNN_module d l
          | SLIM \<Rightarrow> Slim d l
          | HIGHWAY_NETWORK \<Rightarrow> HighwayNetwork d l 100
          | RESNET \<Rightarrow> ResidualNetwork d l 3) \<and>
   constructor_calls (trace (snd (train_and_evaluate E algo dset augment debug kwargs s))) =
     constructor_calls (trace s) @
     (case train_test E dset augment of
        Inl _ \<Rightarrow> []
      | Inr (train, tst, dimensions, labels) \<Rightarrow>
          [case algo of
             LINEAR \<Rightarrow> Linear dimensions labels
           | DNN \<Rightarrow> DNN_module dimensions labels 10
           | CNN \<Rightarrow> CNN_module dimensions labels
           | SLIM \<Rightarrow> Slim dimensions labels
           | HIGHWAY_NETWORK \<Rightarrow> HighwayNetwork dimensions labels 100
           | RESNET \<Rightarrow> ResidualNetwork dimensions labels 3])"
proof (rule conjI)
  show "dispatch algo d l =
     Inr (case algo of
            LINEAR \<Rightarrow> Linear d l
          | DNN \<Rightarrow> DNN_module d l 10
          | CNN \<Rightarrow> CNN_module d l
          | SLIM \<Rightarrow> Slim d l
          | HIGHWAY_NETWORK \<Rightarrow> HighwayNetwork d l 100
          | RESNET \<Rightarrow> ResidualNetwork d l 3)"
    by (rule dispatch_table)
next
  show "constructor_calls (trace (snd (train_and_evaluate E algo dset augment debug kwargs s))) =
     constructor_calls (trace s) @
     (case train_test E dset augment of
        Inl _ \<Rightarrow> []
      | Inr (train, tst, dimensions, labels) \<Rightarrow>
          [case algo of
             LINEAR \<Rightarrow> Linear dimensions labels
           | DNN \<Rightarrow> DNN_module dimensions labels 10
           | CNN \<Rightarrow> CNN_module dimensions labels
           | SLIM \<Rightarrow> Slim dimensions labels
           | HIGHWAY_NETWORK \<Rightarrow> HighwayNetwork dimensions labels 100
           | RESNET \<Rightarrow> ResidualNetwork dimensions labels 3])"
  proof (cases rule: run_cases [where E = E and dset = dset and augment = augment
           and algo = algo and debug = debug and s = s and kwargs = kwargs])
    case (no_data msg)
    from no_data load_fails [OF no_data, of algo debug kwargs s]
    show ?thesis by (simp add: constructor_calls_append)
  next
    case (no_module train tst d l call msg)
    from no_module(2) have "call = (case algo of
            LINEAR \<Rightarrow> Linear d l
          | DNN \<Rightarrow> DNN_module d l 10
          | CNN \<Rightarrow> CNN_module d l
          | SLIM \<Rightarrow> Slim d l
          | HIGHWAY_NETWORK \<Rightarrow> HighwayNetwork d l 100
          | RESNET \<Rightarrow> ResidualNetwork d l 3)"
      by (simp add: dispatch_table)
    with no_module construct_fails [OF no_module, of debug kwargs s]
    show ?thesis by (simp add: constructor_calls_append)
  next
    case (no_fit train tst d l call p msg)
    from no_fit(2) have "call = (case algo of
            LINEAR \<Rightarrow> Linear d l
          | DNN \<Rightarrow> DNN_module d l 10
          | CNN \<Rightarrow> CNN_module d l
          | SLIM \<Rightarrow> Slim d l
          | HIGHWAY_NETWORK \<Rightarrow> HighwayNetwork d l 100
          | RESNET \<Rightarrow> ResidualNetwork d l 3)"
      by (simp add: dispatch_table)
    with no_fit fit_fails [OF no_fit]
    show ?thesis by (simp add: constructor_calls_append)
  next
    case (no_test train tst d l call p p1 msg)
    from no_test(2) have "call = (case algo of
            LINEAR \<Rightarrow> Linear d l
          | DNN \<Rightarrow> DNN_module d l 10
          | CNN \<Rightarrow> CNN_module d l
          | SLIM \<Rightarrow> Slim d l
          | HIGHWAY_NETWORK \<Rightarrow> HighwayNetwork d l 100
          | RESNET \<Rightarrow> ResidualNetwork d l 3)"
      by (simp add: dispatch_table)
    with no_test test_fails [OF no_test]
    show ?thesis by (simp add: constructor_calls_append)
  next
    case (returned train tst d l call p p1 p2)
    from returned(2) have "call = (case algo of
            LINEAR \<Rightarrow> Linear d l
          | DNN \<Rightarrow> DNN_module d l 10
          | CNN \<Rightarrow> CNN_module d l
          | SLIM \<Rightarrow> Slim d l
          | HIGHWAY_NETWORK \<Rightarrow> HighwayNetwork d l 100
          | RESNET \<Rightarrow> ResidualNetwork d l 3)"
      by (simp add: dispatch_table)
    with returned all_return [OF returned]
    show ?thesis by (simp add: constructor_calls_append)
  qed
qed


lemmas step_defs = training_step_def validation_step_def test_step_def forward_def log_def
  batch_loss_def batch_accuracy_def Let_def

subsection \<open>The wrapper's steps\<close>

text \<open>
  Claim C7. \<^verbatim>\<open>forward\<close> returns \<^verbatim>\<open>log_softmax\<close> of the wrapped model's output along dimension
  1; the loss of each of the three steps is \<^verbatim>\<open>nll_loss\<close> of that against the labels; and the
  optimizer is \<^verbatim>\<open>Adagrad\<close> over the module's parameters with the learning rate \<^verbatim>\<open>1e-3\<close>.
\<close>

theorem loss_and_optimizer:
  "forward F model x = log_softmax F (model x) 1 \<and>
   fst (training_step F model (x, y) i lg) = nll_loss F (forward F model x) y \<and>
   map_of (fst (validation_step F model (x, y) i lg)) ''val_loss'' =
     Some (nll_loss F (forward F model x) y) \<and>
   map_of (fst (test_step F model (x, y) i lg)) ''test_loss'' =
     Some (nll_loss F (forward F model x) y) \<and>
   configure_optimizers parameters = Adagrad parameters (Sci 1 (- 3)) \<and>
   lr (configure_optimizers parameters) = Sci 1 (- 3)"
  by (simp add: step_defs configure_optimizers_def)

text \<open>
  Claim C9. On the same batch, and whatever the batch indices, \<^verbatim>\<open>validation_step\<close> and
  \<^verbatim>\<open>test_step\<close> return the same two values and log the same two values; they differ in the
  names only, \<^verbatim>\<open>val_loss\<close> and \<^verbatim>\<open>val_acc\<close> against \<^verbatim>\<open>test_loss\<close> and \<^verbatim>\<open>test_acc\<close>.
\<close>

theorem validation_and_test_agree:
  "map snd (fst (validation_step F model batch i lg)) =
     map snd (fst (test_step F model batch j lg)) \<and>
   map snd (snd (validation_step F model batch i lg)) =
     map snd (snd (test_step F model batch j lg)) \<and>
   map fst (fst (validation_step F model batch i lg)) = [''val_loss'', ''val_acc''] \<and>
   map fst (fst (test_step F model batch j lg)) = [''test_loss'', ''test_acc''] \<and>
   map fst (snd (validation_step F model batch i lg)) = map fst lg @ [''val_loss'', ''val_acc''] \<and>
   map fst (snd (test_step F model batch j lg)) = map fst lg @ [''test_loss'', ''test_acc'']"
  by (cases batch) (simp add: step_defs)

text \<open>
  Claim C2 says that each of the three steps logs a loss and an accuracy. Over the free
  tensor library, what \<^verbatim>\<open>training_step\<close> logs for the batch \<open>(x, y)\<close> does not hold the
  accuracy of the batch.
\<close>

theorem training_step_logs_no_accuracy:
  "\<not> reports_loss_and_accuracy symbolic Net (Input ''x'', Input ''y'')
       (logged_values [] (snd (training_step symbolic Net (Input ''x'', Input ''y'') 0 [])))"
  by (simp add: reports_loss_and_accuracy_def logged_values_def step_defs symbolic_def)

text \<open>
  Claim C2, amended. \<^verbatim>\<open>validation_step\<close> and \<^verbatim>\<open>test_step\<close> each log the loss and the accuracy
  of the batch, under their own names; \<^verbatim>\<open>training_step\<close> logs the loss of the batch, as
  \<^verbatim>\<open>train_loss\<close>, and nothing else.
\<close>

theorem steps_log:
  "snd (training_step F model batch i lg) = lg @ [(''train_loss'', batch_loss F model batch)] \<and>
   snd (validation_step F model batch i lg) =
     lg @ [(''val_loss'', batch_loss F model batch), (''val_acc'', batch_accuracy F model batch)] \<and>
   snd (test_step F model batch i lg) =
     lg @ [(''test_loss'', batch_loss F model batch), (''test_acc'', batch_accuracy F model batch)] \<and>
   reports_loss_and_accuracy F model batch
     (logged_values lg (snd (validation_step F model batch i lg))) \<and>
   reports_loss_and_accuracy F model batch
     (logged_values lg (snd (test_step F model batch i lg))) \<and>
   logged_values lg (snd (training_step F model batch i lg)) = [batch_loss F model batch]"
  by (cases batch) (simp add: reports_loss_and_accuracy_def logged_values_def step_defs)


subsection \<open>The order of training and testing\<close>

lemma example_run:
  "train_and_evaluate example_env RESNET 1 False True script_kwargs initial_state =
     (Inr 0,
      \<lparr>heap = [Module (ResidualNetwork 784 10 3) 1, Model 0],
       trace = [Call_train_test 1 False, Call_constructor (ResidualNetwork 784 10 3),
                Call_set_printoptions 4 False, Enter detect_anomaly,
                Call_fit (Trainer 1 16) 1 (DataLoader [1, 2, 3] script_kwargs),
                Exit detect_anomaly,
                Call_test (Trainer 1 16) 1 (DataLoader [4] [(''batch_size'', Int_arg 1024)])],
       anomaly_enabled = False\<rparr>)"
  using all_return [of example_env 1 False "[1, 2, 3]" "[4]" 784 10 RESNET
      "ResidualNetwork 784 10 3" 0 True initial_state script_kwargs 1 1]
  by (simp add: example_env_def dispatch_def initial_state_def)





subsection \<open>The returned object\<close>

lemma deref_fresh:
  "deref (s\<lparr>heap := heap s @ [a, b], trace := t\<rparr>) (length (heap s)) = Some a"
  "deref (s\<lparr>heap := heap s @ [a, b], trace := t\<rparr>) (Suc (length (heap s))) = Some b"
  by (simp_all add: deref_def nth_append)

text \<open>
  Claim C10. What \<^verbatim>\<open>train_and_evaluate\<close> returns is the reference of the module the selected
  constructor built: a reference that did not exist before the call, that now holds that
  module with the parameters training and testing left in it, and that is not the wrapper,
  which is the next reference, holds \<open>Model m\<close> and is what the trainer was given.
\<close>

theorem returns_constructed_module:
  assumes "train_and_evaluate E algo dset augment debug kwargs s = (Inr m, s')"
  shows "m = length (heap s) \<and>
         deref s m = None \<and>
         deref s' (Suc m) = Some (Model m) \<and>
         (\<exists>train tst d l call p p1 p2.
            train_test E dset augment = Inr (train, tst, d, l) \<and>
            dispatch algo d l = Inr call \<and>
            construct E call = Inr p \<and>
            fit E (debug \<or> anomaly_enabled s) (Trainer 1 16) call p (DataLoader train kwargs)
              = Inr p1 \<and>
            test E (Trainer 1 16) call p1 (DataLoader tst [(''batch_size'', Int_arg 1024)])
              = Inr p2 \<and>
            deref s' m = Some (Module call p2) \<and>
            Call_fit (Trainer 1 16) (Suc m) (DataLoader train kwargs) \<in> set (calls_made s s'))"
proof -
  from assms obtain train tst d l call p p1 p2 where
    steps: "train_test E dset augment = Inr (train, tst, d, l)"
      "dispatch algo d l = Inr call"
      "construct E call = Inr p"
      "fit E (debug \<or> anomaly_enabled s) (Trainer 1 16) call p (DataLoader train kwargs) = Inr p1"
      "test E (Trainer 1 16) call p1 (DataLoader tst [(''batch_size'', Int_arg 1024)]) = Inr p2"
    by (rule returned_run)
  from assms all_return [OF steps]
  have m: "m = length (heap s)"
    and s': "s' = s\<lparr>heap := heap s @ [Module call p2, Model (length (heap s))],
        trace := trace s @
          [Call_train_test dset augment, Call_constructor call, Call_set_printoptions 4 False,
           Enter (if debug then detect_anomaly else suppress),
           Call_fit (Trainer 1 16) (Suc (length (heap s))) (DataLoader train kwargs),
           Exit (if debug then detect_anomaly else suppress),
           Call_test (Trainer 1 16) (Suc (length (heap s)))
             (DataLoader tst [(''batch_size'', Int_arg 1024)])]\<rparr>"
    by auto
  have a: "deref s m = None" by (simp add: m deref_def)
  have b: "deref s' (Suc m) = Some (Model m)" unfolding s' m by (rule deref_fresh(2))
  have c: "deref s' m = Some (Module call p2)" unfolding s' m by (rule deref_fresh(1))
  have d: "Call_fit (Trainer 1 16) (Suc m) (DataLoader train kwargs) \<in> set (calls_made s s')"
    unfolding s' m by (simp add: calls_made_def)
  from m a b c d steps show ?thesis by blast
qed

theorem returns_constructed_module_witness:
  "fst (train_and_evaluate example_env RESNET 1 False True script_kwargs initial_state) = Inr 0 \<and>
   deref initial_state 0 = None \<and>
   deref (snd (train_and_evaluate example_env RESNET 1 False True script_kwargs initial_state)) 0
     = Some (Module (ResidualNetwork 784 10 3) 1) \<and>
   deref (snd (train_and_evaluate example_env RESNET 1 False True script_kwargs initial_state)) 1
     = Some (Model 0)"
proof -
  have run: "train_and_evaluate example_env RESNET 1 False True script_kwargs initial_state =
      (Inr 0, snd (train_and_evaluate example_env RESNET 1 False True script_kwargs initial_state))"
    unfolding example_run by simp
  have "deref (snd (train_and_evaluate example_env RESNET 1 False True script_kwargs initial_state)) 0
     = Some (Module (ResidualNetwork 784 10 3) 1)"
    unfolding example_run by (simp add: deref_def)
  moreover
  have "fst (train_and_evaluate example_env RESNET 1 False True script_kwargs initial_state)
      = Inr 0"
    unfolding example_run by simp
  moreover note returns_constructed_module [OF run]
  ultimately show ?thesis by simp
qed


subsection \<open>The debug flag\<close>





end
